theory Spec2Isabelle
  imports Complex_Main "HOL-Library.AList"
begin

section \<open>Python values used by \<open>server.py\<close>\<close>

text \<open>
  A Python \<open>str\<close> is a sequence of Unicode code points; it is modelled as the list of
  its code points, so that \<open>str.strip\<close> sees every whitespace character Python knows
  and not only the ASCII ones. \<open>py\<close> turns a literal of the source into that list.
\<close>

type_synonym pystr = "nat list"

definition py :: "string \<Rightarrow> pystr" where
  "py s = map of_char s"

text \<open>
  The characters \<open>str.strip()\<close> and \<open>str.split()\<close> remove: CPython's
  \<open>Py_UNICODE_ISSPACE\<close> (U+0009..000D, U+001C..0020, U+0085, U+00A0, U+1680,
  U+2000..200A, U+2028, U+2029, U+202F, U+205F, U+3000).
\<close>

definition isspace :: "nat \<Rightarrow> bool" where
  "isspace c \<longleftrightarrow>
     (9 \<le> c \<and> c \<le> 13) \<or> (28 \<le> c \<and> c \<le> 32) \<or> c = 133 \<or> c = 160 \<or> c = 5760 \<or>
     (8192 \<le> c \<and> c \<le> 8202) \<or> c = 8232 \<or> c = 8233 \<or> c = 8239 \<or> c = 8287 \<or>
     c = 12288"

text \<open>\<open>s.strip()\<close>: leading and trailing whitespace removed, the rest untouched.\<close>

definition strip :: "pystr \<Rightarrow> pystr" where
  "strip s = rev (dropWhile isspace (rev (dropWhile isspace s)))"

text \<open>\<open>s.split()\<close>: the maximal runs of non-whitespace characters, in order.\<close>

fun split_aux :: "pystr \<Rightarrow> pystr \<Rightarrow> pystr list" where
  "split_aux cur [] = (if cur = [] then [] else [cur])"
| "split_aux cur (c # cs) =
     (if isspace c then (if cur = [] then split_aux [] cs else cur # split_aux [] cs)
      else split_aux (cur @ [c]) cs)"

definition split :: "pystr \<Rightarrow> pystr list" where
  "split s = split_aux [] s"

text \<open>\<open>str(i)\<close> for a Python \<open>int\<close> (unbounded): decimal digits, \<open>-\<close> in front when negative.\<close>

fun digits :: "nat \<Rightarrow> pystr" where
  "digits n = (if n < 10 then [48 + n] else digits (n div 10) @ [48 + n mod 10])"

declare digits.simps [simp del]

definition str_int :: "int \<Rightarrow> pystr" where
  "str_int i = (if i < 0 then 45 # digits (nat (- i)) else digits (nat i))"

text \<open>
  A Python \<open>float\<close>. \<open>Finite r\<close> is the double of value \<open>r\<close> (every double is a real
  number), \<open>Finite 0\<close> being \<open>0.0\<close>; \<open>NegZero\<close> is \<open>-0.0\<close>, which compares as zero
  but is another float, with another \<open>str\<close>; then the infinities and NaN. The source
  only compares floats with integer constants and stringifies them; comparisons with NaN
  are false.
\<close>

datatype pyfloat = Finite real | NegZero | PosInf | NegInf | NaN

text \<open>The number a float stands for, when it stands for one.\<close>

fun float_value :: "pyfloat \<Rightarrow> real option" where
  "float_value (Finite r) = Some r"
| "float_value NegZero = Some 0"
| "float_value PosInf = None"
| "float_value NegInf = None"
| "float_value NaN = None"

fun int_le_float :: "int \<Rightarrow> pyfloat \<Rightarrow> bool" where
  "int_le_float i (Finite r) = (of_int i \<le> r)"
| "int_le_float i NegZero = (i \<le> 0)"
| "int_le_float i PosInf = True"
| "int_le_float i NegInf = False"
| "int_le_float i NaN = False"

fun float_le_int :: "pyfloat \<Rightarrow> int \<Rightarrow> bool" where
  "float_le_int (Finite r) i = (r \<le> of_int i)"
| "float_le_int NegZero i = (0 \<le> i)"
| "float_le_int PosInf i = False"
| "float_le_int NegInf i = True"
| "float_le_int NaN i = False"

section \<open>Exceptions\<close>

text \<open>
  The classes of the exceptions that the \<open>requests\<close> library and the JSON decoder
  raise inside the \<open>try\<close> block of \<open>make_api_request\<close>, with the subclass facts
  that the three \<open>except\<close> clauses test. \<open>RequestsJSONDecodeError\<close> is the decoder
  error of recent \<open>requests\<close> versions, a \<open>RequestException\<close> and a \<open>ValueError\<close> at
  once; \<open>JSONDecodeError\<close> is the decoder's own, a \<open>ValueError\<close> only.
\<close>

datatype exc_class =
    Timeout
  | ConnectionError
  | HTTPError
  | OtherRequestException
  | RequestsJSONDecodeError
  | JSONDecodeError
  | OtherException

datatype raised = Raised (exc_cls: exc_class) (exc_str: pystr)

fun is_Timeout :: "raised \<Rightarrow> bool" where
  "is_Timeout (Raised c m) = (c = Timeout)"

fun is_RequestException :: "raised \<Rightarrow> bool" where
  "is_RequestException (Raised c m) =
     (c = Timeout \<or> c = ConnectionError \<or> c = HTTPError \<or> c = OtherRequestException \<or>
      c = RequestsJSONDecodeError)"

fun is_ValueError :: "raised \<Rightarrow> bool" where
  "is_ValueError (Raised c m) = (c = RequestsJSONDecodeError \<or> c = JSONDecodeError)"

text \<open>
  What a call of the server ends with when it does not return: \<open>ValueError(msg)\<close> and
  \<open>Exception(msg)\<close> are the two classes the source raises itself, \<open>IndexError\<close> is
  Python's for an index out of range, and \<open>Uncaught e\<close> is a library exception that no
  \<open>except\<close> clause matches and that leaves the function as it is.
\<close>

datatype error =
    ValueError pystr
  | Exception pystr
  | IndexError
  | Uncaught raised

section \<open>The upstream service\<close>

text \<open>
  \<open>requests.get(url, params=..., timeout=...)\<close> either raises or returns a response
  object. The response has a status code and a body; the source reads neither, it calls
  \<open>raise_for_status()\<close> (returns nothing or raises) and then \<open>json()\<close> (returns the
  decoded value or raises). The decoded value is opaque to the server: the type \<open>'j\<close>.
\<close>

record request =
  req_url :: pystr
  req_params :: "(pystr \<times> pystr) list"
  req_timeout :: int

datatype 'j response =
  Response (status_code: nat) (body: pystr)
    (raise_for_status: "raised option") (json: "raised + 'j")

datatype 'j get_outcome = GetRaises raised | GetReturns "'j response"

type_synonym 'j upstream = "request \<Rightarrow> 'j get_outcome"

section \<open>The request helper\<close>

definition REJSEPLANEN_API_BASE :: pystr where
  "REJSEPLANEN_API_BASE = py ''https://xmlopen.rejseplanen.dk/bin/rest.exe''"

definition REQUEST_TIMEOUT :: int where
  "REQUEST_TIMEOUT = 30"

text \<open>The three \<open>except\<close> clauses, tried in the order of the source.\<close>

definition except_clauses :: "raised \<Rightarrow> error" where
  "except_clauses e =
     (if is_Timeout e then
        Exception (py ''Request to Rejseplanen API timed out after '' @
                   str_int REQUEST_TIMEOUT @ py '' seconds'')
      else if is_RequestException e then
        Exception (py ''Rejseplanen API request failed: '' @ exc_str e)
      else if is_ValueError e then
        Exception (py ''Failed to parse JSON response: '' @ exc_str e)
      else Uncaught e)"

text \<open>The body of the \<open>try\<close> block, once \<open>requests.get\<close> has answered.\<close>

definition try_block :: "'j get_outcome \<Rightarrow> error + 'j" where
  "try_block outcome =
     (case outcome of
        GetRaises e \<Rightarrow> Inl (except_clauses e)
      | GetReturns response \<Rightarrow>
          (case raise_for_status response of
             Some e \<Rightarrow> Inl (except_clauses e)
           | None \<Rightarrow>
               (case json response of
                  Inl e \<Rightarrow> Inl (except_clauses e)
                | Inr v \<Rightarrow> Inr v)))"

text \<open>
  \<open>make_api_request(endpoint, params)\<close>. The dictionary \<open>params\<close> is an association
  list in insertion order; \<open>params['format'] = 'json'\<close> is \<open>AList.update\<close> (the value
  replaced in place when the key is there, the pair appended otherwise). The function
  returns the result, the caller's dictionary as the call leaves it, and the list of the
  requests issued so far with this call's request at its end.
\<close>

definition make_api_request ::
  "'j upstream \<Rightarrow> pystr \<Rightarrow> (pystr \<times> pystr) list \<Rightarrow> request list \<Rightarrow>
   (error + 'j) \<times> (pystr \<times> pystr) list \<times> request list" where
  "make_api_request upstream endpoint params sent =
     (let params' = AList.update (py ''format'') (py ''json'') params;
          url = REJSEPLANEN_API_BASE @ py ''/'' @ endpoint;
          req = \<lparr>req_url = url, req_params = params', req_timeout = REQUEST_TIMEOUT\<rparr>
      in (try_block (upstream req), params', sent @ [req]))"

text \<open>A handler keeps the helper's result and the requests issued; its dictionary is local.\<close>

definition delegate ::
  "'j upstream \<Rightarrow> pystr \<Rightarrow> (pystr \<times> pystr) list \<Rightarrow> request list \<Rightarrow>
   (error + 'j) \<times> request list" where
  "delegate upstream endpoint params sent =
     (case make_api_request upstream endpoint params sent of (r, _, sent') \<Rightarrow> (r, sent'))"

section \<open>The tool handlers\<close>

definition location_search ::
  "'j upstream \<Rightarrow> pystr \<Rightarrow> request list \<Rightarrow> (error + 'j) \<times> request list" where
  "location_search upstream query sent =
     (if query = [] \<or> strip query = [] then
        (Inl (ValueError (py ''Search query cannot be empty'')), sent)
      else delegate upstream (py ''location'') [(py ''input'', strip query)] sent)"

text \<open>\<open>if date: params['date'] = date\<close>: \<open>None\<close> and the empty string are both falsy.\<close>

definition set_if_truthy ::
  "pystr \<Rightarrow> pystr option \<Rightarrow> (pystr \<times> pystr) list \<Rightarrow> (pystr \<times> pystr) list" where
  "set_if_truthy key arg params =
     (case arg of
        None \<Rightarrow> params
      | Some v \<Rightarrow> if v = [] then params else AList.update key v params)"

definition flag :: "bool \<Rightarrow> pystr" where
  "flag b = (if b then py ''1'' else py ''0'')"

definition trip_search ::
  "'j upstream \<Rightarrow> pystr \<Rightarrow> pystr \<Rightarrow> pystr option \<Rightarrow> pystr option \<Rightarrow>
   bool \<Rightarrow> bool \<Rightarrow> bool \<Rightarrow> bool \<Rightarrow> request list \<Rightarrow> (error + 'j) \<times> request list" where
  "trip_search upstream origin_id dest_id date time use_train use_bus use_metro use_ferry sent =
     (if origin_id = [] \<or> strip origin_id = [] then
        (Inl (ValueError (py ''origin_id is required'')), sent)
      else if dest_id = [] \<or> strip dest_id = [] then
        (Inl (ValueError (py ''dest_id is required'')), sent)
      else
        let params = [(py ''originId'', strip origin_id), (py ''destId'', strip dest_id)];
            params = set_if_truthy (py ''date'') date params;
            params = set_if_truthy (py ''time'') time params;
            params = AList.update (py ''useTog'') (flag use_train) params;
            params = AList.update (py ''useBus'') (flag use_bus) params;
            params = AList.update (py ''useMetro'') (flag use_metro) params;
            params = AList.update (py ''useFerry'') (flag use_ferry) params
        in delegate upstream (py ''trip'') params sent)"

definition departure_board ::
  "'j upstream \<Rightarrow> pystr \<Rightarrow> pystr option \<Rightarrow> pystr option \<Rightarrow> request list \<Rightarrow>
   (error + 'j) \<times> request list" where
  "departure_board upstream station_id date time sent =
     (if station_id = [] \<or> strip station_id = [] then
        (Inl (ValueError (py ''station_id is required'')), sent)
      else
        let params = [(py ''id'', strip station_id)];
            params = set_if_truthy (py ''date'') date params;
            params = set_if_truthy (py ''time'') time params
        in delegate upstream (py ''departureBoard'') params sent)"

text \<open>
  \<open>nearby_stops\<close>, with \<open>latitude\<close> and \<open>longitude\<close> floats as annotated.
  \<open>str_float\<close> is Python's \<open>str\<close> on a float (the shortest decimal that reads back
  as the same double), a builtin taken as a parameter.
\<close>

definition nearby_stops ::
  "(pyfloat \<Rightarrow> pystr) \<Rightarrow> 'j upstream \<Rightarrow> pyfloat \<Rightarrow> pyfloat \<Rightarrow> int \<Rightarrow> int \<Rightarrow>
   request list \<Rightarrow> (error + 'j) \<times> request list" where
  "nearby_stops str_float upstream latitude longitude max_radius max_number sent =
     (if \<not> (int_le_float (- 90) latitude \<and> float_le_int latitude 90) then
        (Inl (ValueError (py ''Latitude must be between -90 and 90'')), sent)
      else if \<not> (int_le_float (- 180) longitude \<and> float_le_int longitude 180) then
        (Inl (ValueError (py ''Longitude must be between -180 and 180'')), sent)
      else if max_radius < 1 then
        (Inl (ValueError (py ''max_radius must be at least 1 meter'')), sent)
      else
        let max_radius = (if max_radius > 10000 then 10000 else max_radius) in
        if max_number < 1 then
          (Inl (ValueError (py ''max_number must be at least 1'')), sent)
        else
          let max_number = (if max_number > 50 then 50 else max_number);
              params = [(py ''coordX'', str_float longitude),
                        (py ''coordY'', str_float latitude),
                        (py ''maxRadius'', str_int max_radius),
                        (py ''maxNumber'', str_int max_number)]
          in delegate upstream (py ''stopsNearby'') params sent)"




section \<open>Facts about the string functions and the helper\<close>

lemma strip_empty_iff: "strip s = [] \<longleftrightarrow> (\<forall>c\<in>set s. isspace c)"
proof
  assume "strip s = []"
  then have "dropWhile isspace (rev (dropWhile isspace s)) = []"
    by (simp add: strip_def)
  then have "\<forall>c\<in>set (dropWhile isspace s). isspace c"
    by simp
  then have "dropWhile isspace s = []"
    by (metis hd_dropWhile hd_in_set)
  then show "\<forall>c\<in>set s. isspace c"
    by simp
next
  assume "\<forall>c\<in>set s. isspace c"
  then show "strip s = []"
    by (auto simp: strip_def dest: set_dropWhileD)
qed

lemma strip_dropWhile:
  "dropWhile isspace s = strip s @ rev (takeWhile isspace (rev (dropWhile isspace s)))"
proof -
  let ?t = "dropWhile isspace s"
  have "?t = rev (takeWhile isspace (rev ?t) @ dropWhile isspace (rev ?t))"
    by simp
  also have "\<dots> = rev (dropWhile isspace (rev ?t)) @ rev (takeWhile isspace (rev ?t))"
    by (simp only: rev_append)
  finally show ?thesis
    by (simp only: strip_def)
qed

lemma strip_decomp:
  "s = takeWhile isspace s @ strip s @ rev (takeWhile isspace (rev (dropWhile isspace s)))"
proof -
  have "s = takeWhile isspace s @ dropWhile isspace s"
    by simp
  then show ?thesis
    using strip_dropWhile [of s] by metis
qed

lemma strip_hd: "strip s \<noteq> [] \<Longrightarrow> \<not> isspace (hd (strip s))"
proof -
  assume ne: "strip s \<noteq> []"
  let ?t = "dropWhile isspace s"
  have "?t \<noteq> []"
    using ne strip_dropWhile [of s] by (metis append_is_Nil_conv)
  then have "\<not> isspace (hd ?t)"
    by (rule hd_dropWhile)
  moreover have "hd ?t = hd (strip s)"
    using ne strip_dropWhile [of s] by (metis hd_append2)
  ultimately show ?thesis
    by simp
qed

lemma strip_last: "strip s \<noteq> [] \<Longrightarrow> \<not> isspace (last (strip s))"
proof -
  assume ne: "strip s \<noteq> []"
  let ?u = "dropWhile isspace (rev (dropWhile isspace s))"
  from ne have u: "?u \<noteq> []"
    by (simp add: strip_def)
  then have "\<not> isspace (hd ?u)"
    by (rule hd_dropWhile)
  moreover have "last (strip s) = hd ?u"
    using u by (simp add: strip_def last_rev)
  ultimately show ?thesis
    by simp
qed

lemma except_clauses_not_ValueError: "except_clauses e \<noteq> ValueError m"
  by (simp add: except_clauses_def)

lemma try_block_not_ValueError: "try_block outcome \<noteq> Inl (ValueError m)"
  by (simp add: try_block_def except_clauses_not_ValueError
      split: get_outcome.splits option.splits sum.splits)

lemma delegate_eq:
  "delegate upstream endpoint params sent =
     (try_block (upstream \<lparr>req_url = REJSEPLANEN_API_BASE @ py ''/'' @ endpoint,
                          req_params = AList.update (py ''format'') (py ''json'') params,
                          req_timeout = REQUEST_TIMEOUT\<rparr>),
      sent @ [\<lparr>req_url = REJSEPLANEN_API_BASE @ py ''/'' @ endpoint,
               req_params = AList.update (py ''format'') (py ''json'') params,
               req_timeout = REQUEST_TIMEOUT\<rparr>])"
  by (simp add: delegate_def make_api_request_def Let_def)

lemma delegate_not_ValueError: "fst (delegate upstream endpoint params sent) \<noteq> Inl (ValueError m)"
  by (simp add: delegate_eq try_block_not_ValueError)

lemma delegate_length:
  "length (snd (delegate upstream endpoint params sent)) = length sent + 1"
  by (simp add: delegate_eq)

lemma in_interval_iff:
  "int_le_float lo x \<and> float_le_int x hi \<longleftrightarrow>
     (\<exists>r. float_value x = Some r \<and> of_int lo \<le> r \<and> r \<le> of_int hi)"
  by (cases x) auto

lemma url_stopsNearby:
  "REJSEPLANEN_API_BASE @ py ''/'' @ py ''stopsNearby'' =
     py ''https://xmlopen.rejseplanen.dk/bin/rest.exe/stopsNearby''"
  by (simp add: REJSEPLANEN_API_BASE_def py_def)

lemma nearby_stops_valid:
  assumes "int_le_float (- 90) latitude \<and> float_le_int latitude 90"
    and "int_le_float (- 180) longitude \<and> float_le_int longitude 180"
    and "1 \<le> max_radius" and "1 \<le> max_number"
  shows "nearby_stops str_float upstream latitude longitude max_radius max_number sent =
     delegate upstream (py ''stopsNearby'')
       [(py ''coordX'', str_float longitude), (py ''coordY'', str_float latitude),
        (py ''maxRadius'', str_int (min max_radius 10000)),
        (py ''maxNumber'', str_int (min max_number 50))] sent"
proof -
  have "(if max_radius > 10000 then 10000 else max_radius) = min max_radius 10000"
    by simp
  moreover have "(if max_number > 50 then 50 else max_number) = min max_number 50"
    by simp
  ultimately show ?thesis
    using assms by (simp add: nearby_stops_def Let_def del: min_less_iff_conj)
qed

lemma nearby_stops_invalid:
  assumes "\<not> (int_le_float (- 90) latitude \<and> float_le_int latitude 90) \<or>
     \<not> (int_le_float (- 180) longitude \<and> float_le_int longitude 180) \<or>
     max_radius < 1 \<or> max_number < 1"
  shows "\<exists>m. nearby_stops str_float upstream latitude longitude max_radius max_number sent =
     (Inl (ValueError m), sent)"
  using assms by (auto simp: nearby_stops_def Let_def)

lemma str_int_caps: "str_int 10000 = py ''10000''" "str_int 50 = py ''50''"
  "str_int 10 = py ''10''" "str_int 1 = py ''1''" "str_int 30 = py ''30''"
  "str_int 1000 = py ''1000''"
  by (simp_all add: str_int_def digits.simps py_def)

lemma valid_id: "\<not> (\<forall>c\<in>set s. isspace c) \<Longrightarrow> \<not> (s = [] \<or> strip s = [])"
  using strip_empty_iff [of s] by auto

lemma invalid_id: "\<forall>c\<in>set s. isspace c \<Longrightarrow> s = [] \<or> strip s = []"
  using strip_empty_iff [of s] by auto

lemma url_trip:
  "REJSEPLANEN_API_BASE @ py ''/'' @ py ''trip'' =
     py ''https://xmlopen.rejseplanen.dk/bin/rest.exe/trip''"
  by (simp add: REJSEPLANEN_API_BASE_def py_def)

lemma url_departureBoard:
  "REJSEPLANEN_API_BASE @ py ''/'' @ py ''departureBoard'' =
     py ''https://xmlopen.rejseplanen.dk/bin/rest.exe/departureBoard''"
  by (simp add: REJSEPLANEN_API_BASE_def py_def)

lemma set_if_truthy_falsy [simp]:
  "set_if_truthy key None params = params" "set_if_truthy key (Some []) params = params"
  by (simp_all add: set_if_truthy_def)

lemma trip_params_keys:
  "py ''originId'' \<noteq> py ''date''" "py ''destId'' \<noteq> py ''date''"
  "py ''originId'' \<noteq> py ''time''" "py ''destId'' \<noteq> py ''time''" "py ''date'' \<noteq> py ''time''"
  "py ''originId'' \<noteq> py ''useTog''" "py ''destId'' \<noteq> py ''useTog''"
  "py ''date'' \<noteq> py ''useTog''" "py ''time'' \<noteq> py ''useTog''"
  "py ''originId'' \<noteq> py ''useBus''" "py ''destId'' \<noteq> py ''useBus''"
  "py ''date'' \<noteq> py ''useBus''" "py ''time'' \<noteq> py ''useBus''" "py ''useTog'' \<noteq> py ''useBus''"
  "py ''originId'' \<noteq> py ''useMetro''" "py ''destId'' \<noteq> py ''useMetro''"
  "py ''date'' \<noteq> py ''useMetro''" "py ''time'' \<noteq> py ''useMetro''"
  "py ''useTog'' \<noteq> py ''useMetro''" "py ''useBus'' \<noteq> py ''useMetro''"
  "py ''originId'' \<noteq> py ''useFerry''" "py ''destId'' \<noteq> py ''useFerry''"
  "py ''date'' \<noteq> py ''useFerry''" "py ''time'' \<noteq> py ''useFerry''"
  "py ''useTog'' \<noteq> py ''useFerry''" "py ''useBus'' \<noteq> py ''useFerry''"
  "py ''useMetro'' \<noteq> py ''useFerry''"
  "py ''originId'' \<noteq> py ''format''" "py ''destId'' \<noteq> py ''format''"
  "py ''date'' \<noteq> py ''format''" "py ''time'' \<noteq> py ''format''"
  "py ''useTog'' \<noteq> py ''format''" "py ''useBus'' \<noteq> py ''format''"
  "py ''useMetro'' \<noteq> py ''format''" "py ''useFerry'' \<noteq> py ''format''"
  "py ''id'' \<noteq> py ''date''" "py ''id'' \<noteq> py ''time''" "py ''id'' \<noteq> py ''format''"
  by (simp_all add: py_def)

text \<open>The dictionary \<open>trip_search\<close> builds, as the list of its items in insertion order.\<close>

lemma trip_search_valid:
  assumes "\<not> (\<forall>c\<in>set origin_id. isspace c)" and "\<not> (\<forall>c\<in>set dest_id. isspace c)"
  shows "trip_search upstream origin_id dest_id date time use_train use_bus use_metro use_ferry
      sent =
     delegate upstream (py ''trip'')
       ([(py ''originId'', strip origin_id), (py ''destId'', strip dest_id)] @
        (case date of None \<Rightarrow> [] | Some d \<Rightarrow> if d = [] then [] else [(py ''date'', d)]) @
        (case time of None \<Rightarrow> [] | Some t \<Rightarrow> if t = [] then [] else [(py ''time'', t)]) @
        [(py ''useTog'', if use_train then py ''1'' else py ''0''),
         (py ''useBus'', if use_bus then py ''1'' else py ''0''),
         (py ''useMetro'', if use_metro then py ''1'' else py ''0''),
         (py ''useFerry'', if use_ferry then py ''1'' else py ''0'')]) sent"
  using valid_id [OF assms(1)] valid_id [OF assms(2)]
  by (simp add: trip_search_def Let_def set_if_truthy_def flag_def trip_params_keys
      split: option.splits)

lemma departure_board_valid:
  assumes "\<not> (\<forall>c\<in>set station_id. isspace c)"
  shows "departure_board upstream station_id date time sent =
     delegate upstream (py ''departureBoard'')
       ([(py ''id'', strip station_id)] @
        (case date of None \<Rightarrow> [] | Some d \<Rightarrow> if d = [] then [] else [(py ''date'', d)]) @
        (case time of None \<Rightarrow> [] | Some t \<Rightarrow> if t = [] then [] else [(py ''time'', t)])) sent"
  using valid_id [OF assms]
  by (simp add: departure_board_def Let_def set_if_truthy_def trip_params_keys
      split: option.splits)

lemma delegate_snd:
  "snd (delegate upstream endpoint params sent) =
     sent @ [\<lparr>req_url = REJSEPLANEN_API_BASE @ py ''/'' @ endpoint,
               req_params = AList.update (py ''format'') (py ''json'') params,
               req_timeout = 30\<rparr>]"
  by (simp add: delegate_eq REQUEST_TIMEOUT_def)

lemma trip_search_falsy_date:
  "trip_search upstream origin_id dest_id (Some []) time use_train use_bus use_metro use_ferry
     sent =
   trip_search upstream origin_id dest_id None time use_train use_bus use_metro use_ferry sent"
  by (simp add: trip_search_def)

lemma trip_search_falsy_time:
  "trip_search upstream origin_id dest_id date (Some []) use_train use_bus use_metro use_ferry
     sent =
   trip_search upstream origin_id dest_id date None use_train use_bus use_metro use_ferry sent"
  by (simp add: trip_search_def)

lemma departure_board_falsy_date:
  "departure_board upstream station_id (Some []) time sent =
   departure_board upstream station_id None time sent"
  by (simp add: departure_board_def)

lemma departure_board_falsy_time:
  "departure_board upstream station_id date (Some []) sent =
   departure_board upstream station_id date None sent"
  by (simp add: departure_board_def)

lemma last_request:
  "req_params (last (snd (delegate upstream endpoint params sent))) =
     AList.update (py ''format'') (py ''json'') params"
  by (simp add: delegate_snd)

lemma trip_search_invalid:
  assumes "(\<forall>c\<in>set origin_id. isspace c) \<or> (\<forall>c\<in>set dest_id. isspace c)"
  shows "\<exists>m. trip_search upstream origin_id dest_id date time use_train use_bus use_metro
      use_ferry sent = (Inl (ValueError m), sent)"
proof (cases "\<forall>c\<in>set origin_id. isspace c")
  case True
  from invalid_id [OF True] show ?thesis
    by (simp add: trip_search_def)
next
  case False
  with assms have "\<forall>c\<in>set dest_id. isspace c"
    by blast
  from invalid_id [OF this] valid_id [OF False] show ?thesis
    by (simp add: trip_search_def)
qed

lemma departure_board_invalid:
  assumes "\<forall>c\<in>set station_id. isspace c"
  shows "departure_board upstream station_id date time sent =
     (Inl (ValueError (py ''station_id is required'')), sent)"
  using invalid_id [OF assms] by (simp add: departure_board_def)

lemma location_search_invalid:
  assumes "\<forall>c\<in>set query. isspace c"
  shows "location_search upstream query sent =
     (Inl (ValueError (py ''Search query cannot be empty'')), sent)"
  using invalid_id [OF assms] by (simp add: location_search_def)

lemma format_injected:
  "map_of (AList.update (py ''format'') (py ''json'') params) (py ''format'') = Some (py ''json'')"
  by (simp add: update_conv')

lemma format_once:
  "distinct (map fst params) \<Longrightarrow>
     length (filter (\<lambda>kv. fst kv = k) (AList.update k v params)) = 1"
proof (induction params)
  case Nil
  then show ?case by simp
next
  case (Cons p ps)
  have "fst p = k \<Longrightarrow> \<forall>kv\<in>set ps. fst kv \<noteq> k"
  proof (intro ballI notI)
    fix kv
    assume "fst p = k" and "kv \<in> set ps" and "fst kv = k"
    then have "fst p \<in> fst ` set ps"
      by (metis image_eqI)
    with Cons.prems show False
      by simp
  qed
  then have "fst p = k \<Longrightarrow> filter (\<lambda>kv. fst kv = k) ps = []"
    by (simp add: filter_empty_conv)
  then show ?case
    using Cons by auto
qed

lemma delegate_one_request:
  "\<exists>req. snd (delegate upstream endpoint params sent) = sent @ [req] \<and>
     req_url req = REJSEPLANEN_API_BASE @ py ''/'' @ endpoint \<and>
     map_of (req_params req) (py ''format'') = Some (py ''json'') \<and>
     fst (delegate upstream endpoint params sent) = try_block (upstream req)"
  by (simp add: delegate_eq format_injected)

lemma location_search_cases:
  "(\<exists>m. location_search upstream query sent = (Inl (ValueError m), sent)) \<or>
   (\<exists>params. location_search upstream query sent =
      delegate upstream (py ''location'') params sent)"
  by (auto simp: location_search_def)

lemma trip_search_cases:
  "(\<exists>m. trip_search upstream origin_id dest_id date time use_train use_bus use_metro use_ferry
      sent = (Inl (ValueError m), sent)) \<or>
   (\<exists>params. trip_search upstream origin_id dest_id date time use_train use_bus use_metro
      use_ferry sent = delegate upstream (py ''trip'') params sent)"
  by (auto simp: trip_search_def Let_def)

lemma departure_board_cases:
  "(\<exists>m. departure_board upstream station_id date time sent = (Inl (ValueError m), sent)) \<or>
   (\<exists>params. departure_board upstream station_id date time sent =
      delegate upstream (py ''departureBoard'') params sent)"
  by (auto simp: departure_board_def Let_def)

lemma nearby_stops_cases:
  "(\<exists>m. nearby_stops str_float upstream latitude longitude max_radius max_number sent =
      (Inl (ValueError m), sent)) \<or>
   (\<exists>params. nearby_stops str_float upstream latitude longitude max_radius max_number sent =
      delegate upstream (py ''stopsNearby'') params sent)"
  by (auto simp: nearby_stops_def Let_def)

lemma location_search_valid:
  assumes "\<not> (\<forall>c\<in>set query. isspace c)"
  shows "location_search upstream query sent =
     delegate upstream (py ''location'') [(py ''input'', strip query)] sent"
  using valid_id [OF assms] by (simp add: location_search_def)

lemma url_location:
  "REJSEPLANEN_API_BASE @ py ''/'' @ py ''location'' =
     py ''https://xmlopen.rejseplanen.dk/bin/rest.exe/location''"
  by (simp add: REJSEPLANEN_API_BASE_def py_def)

lemma valid_one_request:
  assumes "call = delegate upstream endpoint params sent"
  shows "\<exists>req. snd call = sent @ [req] \<and>
     req_url req = REJSEPLANEN_API_BASE @ py ''/'' @ endpoint \<and>
     map_of (req_params req) (py ''format'') = Some (py ''json'') \<and>
     fst call = try_block (upstream req)"
  unfolding assms by (rule delegate_one_request)

lemma success_one_request:
  assumes "(\<exists>m. call = (Inl (ValueError m), sent)) \<or>
     (\<exists>params. call = delegate upstream endpoint params sent)"
    and "fst call = Inr v"
  shows "\<exists>req. snd call = sent @ [req] \<and>
     req_url req = REJSEPLANEN_API_BASE @ py ''/'' @ endpoint \<and>
     map_of (req_params req) (py ''format'') = Some (py ''json'') \<and>
     try_block (upstream req) = Inr v"
proof -
  from assms obtain params where "call = delegate upstream endpoint params sent"
    by auto
  with assms(2) delegate_one_request [of upstream endpoint params sent] show ?thesis
    by auto
qed

lemma make_api_request_eq:
  "make_api_request upstream endpoint params sent =
     (try_block (upstream \<lparr>req_url = REJSEPLANEN_API_BASE @ py ''/'' @ endpoint,
                          req_params = AList.update (py ''format'') (py ''json'') params,
                          req_timeout = REQUEST_TIMEOUT\<rparr>),
      AList.update (py ''format'') (py ''json'') params,
      sent @ [\<lparr>req_url = REJSEPLANEN_API_BASE @ py ''/'' @ endpoint,
               req_params = AList.update (py ''format'') (py ''json'') params,
               req_timeout = REQUEST_TIMEOUT\<rparr>])"
  by (simp add: make_api_request_def Let_def)









section \<open>The claims\<close>




text \<open>
  Claim C2. A call whose arguments fail validation ends with a \<open>ValueError\<close> (the
  spec's \<open>InvalidArgument\<close>) and the list of issued requests is what it was before the
  call: nothing is sent. This holds for \<open>location_search\<close>, \<open>trip_search\<close> and
  \<open>departure_board\<close> when a required string is empty or all whitespace, and for
  \<open>nearby_stops\<close> when a coordinate is out of range or a limit is below 1.
\<close>

theorem C2_validation_before_network:
  "((\<forall>c\<in>set query. isspace c) \<longrightarrow>
      (\<exists>m. location_search upstream query sent = (Inl (ValueError m), sent))) \<and>
   ((\<forall>c\<in>set origin_id. isspace c) \<or> (\<forall>c\<in>set dest_id. isspace c) \<longrightarrow>
      (\<exists>m. trip_search upstream origin_id dest_id date time use_train use_bus use_metro
         use_ferry sent = (Inl (ValueError m), sent))) \<and>
   ((\<forall>c\<in>set station_id. isspace c) \<longrightarrow>
      (\<exists>m. departure_board upstream station_id date time sent = (Inl (ValueError m), sent))) \<and>
   (\<not> (\<exists>r. float_value latitude = Some r \<and> - 90 \<le> r \<and> r \<le> 90) \<or>
    \<not> (\<exists>r. float_value longitude = Some r \<and> - 180 \<le> r \<and> r \<le> 180) \<or>
    max_radius < 1 \<or> max_number < 1 \<longrightarrow>
      (\<exists>m. nearby_stops str_float upstream latitude longitude max_radius max_number sent =
         (Inl (ValueError m), sent)))"
proof (intro conjI impI)
  assume "\<forall>c\<in>set query. isspace c"
  then show "\<exists>m. location_search upstream query sent = (Inl (ValueError m), sent)"
    by (simp add: location_search_invalid)
next
  assume "(\<forall>c\<in>set origin_id. isspace c) \<or> (\<forall>c\<in>set dest_id. isspace c)"
  then show "\<exists>m. trip_search upstream origin_id dest_id date time use_train use_bus use_metro
      use_ferry sent = (Inl (ValueError m), sent)"
    by (rule trip_search_invalid)
next
  assume "\<forall>c\<in>set station_id. isspace c"
  then show "\<exists>m. departure_board upstream station_id date time sent =
      (Inl (ValueError m), sent)"
    by (simp add: departure_board_invalid)
next
  assume "\<not> (\<exists>r. float_value latitude = Some r \<and> - 90 \<le> r \<and> r \<le> 90) \<or>
    \<not> (\<exists>r. float_value longitude = Some r \<and> - 180 \<le> r \<and> r \<le> 180) \<or>
    max_radius < 1 \<or> max_number < 1"
  then have "\<not> (int_le_float (- 90) latitude \<and> float_le_int latitude 90) \<or>
     \<not> (int_le_float (- 180) longitude \<and> float_le_int longitude 180) \<or>
     max_radius < 1 \<or> max_number < 1"
    using in_interval_iff [of "- 90" latitude 90] in_interval_iff [of "- 180" longitude 180]
    by simp
  then show "\<exists>m. nearby_stops str_float upstream latitude longitude max_radius max_number
      sent = (Inl (ValueError m), sent)"
    by (rule nearby_stops_invalid)
qed

text \<open>
  A blank query, an empty destination, a station name made of a tab and an ideographic
  space, and longitude 181: each is rejected with no request sent.
\<close>

theorem C2_validation_before_network_witness:
  "(\<exists>m. location_search (\<lambda>r. GetReturns (Response 200 (py ''7'') None (Inr (7::nat)))) (py '' '') [] =
      (Inl (ValueError m), [])) \<and>
   (\<exists>m. trip_search (\<lambda>r. GetReturns (Response 200 (py ''7'') None (Inr (7::nat)))) (py ''A'') [] None None
      True True True True [] = (Inl (ValueError m), [])) \<and>
   (\<exists>m. departure_board (\<lambda>r. GetReturns (Response 200 (py ''7'') None (Inr (7::nat)))) [9, 12288] None None
      [] = (Inl (ValueError m), [])) \<and>
   (\<exists>m. nearby_stops (\<lambda>f. py ''x'') (\<lambda>r. GetReturns (Response 200 (py ''7'') None (Inr (7::nat))))
      (Finite 55.6761) (Finite 181) 1000 10 [] = (Inl (ValueError m), []))"
proof -
  let ?up = "\<lambda>r::request. GetReturns (Response 200 (py ''7'') None (Inr (7::nat)))"
  have h: "\<forall>c\<in>set (py '' ''). isspace c"
    "(\<forall>c\<in>set (py ''A''). isspace c) \<or> (\<forall>c\<in>set ([]::pystr). isspace c)"
    "\<forall>c\<in>set [9, 12288]. isspace c"
    "\<not> (\<exists>r. float_value (Finite 55.6761) = Some r \<and> - 90 \<le> r \<and> r \<le> 90) \<or>
     \<not> (\<exists>r. float_value (Finite 181) = Some r \<and> - 180 \<le> r \<and> r \<le> 180) \<or>
     (1000::int) < 1 \<or> (10::int) < 1"
    by (simp_all add: py_def isspace_def)
  note inst = C2_validation_before_network [of "py '' ''" ?up "[]" "py ''A''" "[]" None None
      True True True True "[9, 12288]" "Finite 55.6761" "Finite 181" 1000 10 "\<lambda>f. py ''x''"]
  from inst h show ?thesis
    by blast
qed

text \<open>
  Claim C3. When \<open>latitude\<close> is a float whose value is in \<open>[-90, 90]\<close>, \<open>longitude\<close>
  one whose value is in \<open>[-180, 180]\<close>, and both limits are at least 1, \<open>nearby_stops\<close>
  raises no \<open>ValueError\<close>: it hands the helper exactly the four parameters
  \<open>coordX = str(longitude)\<close>, \<open>coordY = str(latitude)\<close>,
  \<open>maxRadius = str(min(max_radius, 10000))\<close> and
  \<open>maxNumber = str(min(max_number, 50))\<close>, against the endpoint \<open>stopsNearby\<close>, and
  the one request issued carries these four followed by the helper's \<open>format = json\<close>.
  A limit above its cap is reduced to the cap, not rejected.
\<close>

theorem C3_nearby_stops_params:
  assumes "float_value latitude = Some la" and "- 90 \<le> la" and "la \<le> 90"
    and "float_value longitude = Some lo" and "- 180 \<le> lo" and "lo \<le> 180"
    and "1 \<le> max_radius" and "1 \<le> max_number"
  shows "nearby_stops str_float upstream latitude longitude max_radius max_number sent =
       delegate upstream (py ''stopsNearby'')
         [(py ''coordX'', str_float longitude), (py ''coordY'', str_float latitude),
          (py ''maxRadius'', str_int (min max_radius 10000)),
          (py ''maxNumber'', str_int (min max_number 50))] sent \<and>
     snd (nearby_stops str_float upstream latitude longitude max_radius max_number sent) =
       sent @ [\<lparr>req_url = py ''https://xmlopen.rejseplanen.dk/bin/rest.exe/stopsNearby'',
                 req_params =
                   [(py ''coordX'', str_float longitude), (py ''coordY'', str_float latitude),
                    (py ''maxRadius'', str_int (min max_radius 10000)),
                    (py ''maxNumber'', str_int (min max_number 50)),
                    (py ''format'', py ''json'')],
                 req_timeout = 30\<rparr>] \<and>
     (\<forall>m. fst (nearby_stops str_float upstream latitude longitude max_radius max_number sent)
          \<noteq> Inl (ValueError m))"
proof -
  have lat: "int_le_float (- 90) latitude \<and> float_le_int latitude 90"
    using assms(1-3) in_interval_iff [of "- 90" latitude 90] by simp
  have lon: "int_le_float (- 180) longitude \<and> float_le_int longitude 180"
    using assms(4-6) in_interval_iff [of "- 180" longitude 180] by simp
  note eq = nearby_stops_valid [OF lat lon assms(7) assms(8), of str_float upstream sent]
  have keys: "py ''coordX'' \<noteq> py ''format''" "py ''coordY'' \<noteq> py ''format''"
    "py ''maxRadius'' \<noteq> py ''format''" "py ''maxNumber'' \<noteq> py ''format''"
    by (simp_all add: py_def)
  have "snd (nearby_stops str_float upstream latitude longitude max_radius max_number sent) =
       sent @ [\<lparr>req_url = py ''https://xmlopen.rejseplanen.dk/bin/rest.exe/stopsNearby'',
                 req_params =
                   [(py ''coordX'', str_float longitude), (py ''coordY'', str_float latitude),
                    (py ''maxRadius'', str_int (min max_radius 10000)),
                    (py ''maxNumber'', str_int (min max_number 50)),
                    (py ''format'', py ''json'')],
                 req_timeout = 30\<rparr>]"
    using keys by (simp add: eq delegate_eq url_stopsNearby REQUEST_TIMEOUT_def)
  moreover have "\<forall>m. fst (nearby_stops str_float upstream latitude longitude max_radius
      max_number sent) \<noteq> Inl (ValueError m)"
    by (simp add: eq delegate_not_ValueError)
  ultimately show ?thesis
    using eq by simp
qed

text \<open>
  The spec's example: \<open>max_radius = 50000\<close> reaches the upstream as \<open>10000\<close>. And
  the two zeros: at latitude \<open>0.0\<close> and longitude \<open>-0.0\<close> the request carries
  \<open>coordY = 0.0\<close> and \<open>coordX = -0.0\<close>.
\<close>

theorem C3_nearby_stops_params_witness:
  "nearby_stops
       (\<lambda>f. if f = NegZero then py ''-0.0'' else if f = Finite 0 then py ''0.0''
            else if f = Finite 55.6761 then py ''55.6761'' else py ''12.5683'')
       (\<lambda>r. GetReturns (Response 200 (py ''7'') None (Inr (7::nat))))
       (Finite 55.6761) (Finite 12.5683) 50000 10 [] =
     (Inr 7,
      [\<lparr>req_url = py ''https://xmlopen.rejseplanen.dk/bin/rest.exe/stopsNearby'',
        req_params =
          [(py ''coordX'', py ''12.5683''), (py ''coordY'', py ''55.6761''),
           (py ''maxRadius'', py ''10000''), (py ''maxNumber'', py ''10''),
           (py ''format'', py ''json'')],
        req_timeout = 30\<rparr>]) \<and>
   nearby_stops
       (\<lambda>f. if f = NegZero then py ''-0.0'' else if f = Finite 0 then py ''0.0''
            else if f = Finite 55.6761 then py ''55.6761'' else py ''12.5683'')
       (\<lambda>r. GetReturns (Response 200 (py ''7'') None (Inr (7::nat))))
       (Finite 0) NegZero 1000 10 [] =
     (Inr 7,
      [\<lparr>req_url = py ''https://xmlopen.rejseplanen.dk/bin/rest.exe/stopsNearby'',
        req_params =
          [(py ''coordX'', py ''-0.0''), (py ''coordY'', py ''0.0''),
           (py ''maxRadius'', py ''1000''), (py ''maxNumber'', py ''10''),
           (py ''format'', py ''json'')],
        req_timeout = 30\<rparr>])"
proof -
  let ?sf = "\<lambda>f. if f = NegZero then py ''-0.0'' else if f = Finite 0 then py ''0.0''
      else if f = Finite 55.6761 then py ''55.6761'' else py ''12.5683''"
  let ?up = "\<lambda>r::request. GetReturns (Response 200 (py ''7'') None (Inr (7::nat)))"
  let ?call = "nearby_stops ?sf ?up (Finite 55.6761) (Finite 12.5683) 50000 10 []"
  let ?zero = "nearby_stops ?sf ?up (Finite 0) NegZero 1000 10 []"
  have h: "float_value (Finite 55.6761) = Some 55.6761"
    "- 90 \<le> (55.6761::real)" "(55.6761::real) \<le> 90"
    "float_value (Finite 12.5683) = Some 12.5683"
    "- 180 \<le> (12.5683::real)" "(12.5683::real) \<le> 180"
    "(1::int) \<le> 50000" "(1::int) \<le> 10"
    by simp_all
  have z: "float_value (Finite 0) = Some 0" "- 90 \<le> (0::real)" "(0::real) \<le> 90"
    "float_value NegZero = Some 0" "- 180 \<le> (0::real)" "(0::real) \<le> 180"
    "(1::int) \<le> 1000" "(1::int) \<le> 10"
    by simp_all
  note inst = C3_nearby_stops_params [OF h, of ?sf ?up "[]"]
  note zero = C3_nearby_stops_params [OF z, of ?sf ?up "[]"]
  have caps: "str_int (min 50000 10000) = py ''10000''" "str_int (min 10 50) = py ''10''"
    "str_int (min 1000 10000) = py ''1000''"
    by (simp_all add: str_int_caps)
  have "fst ?call = Inr 7"
    by (subst inst [THEN conjunct1]) (simp add: delegate_eq try_block_def)
  moreover have "snd ?call =
      [\<lparr>req_url = py ''https://xmlopen.rejseplanen.dk/bin/rest.exe/stopsNearby'',
        req_params =
          [(py ''coordX'', py ''12.5683''), (py ''coordY'', py ''55.6761''),
           (py ''maxRadius'', py ''10000''), (py ''maxNumber'', py ''10''),
           (py ''format'', py ''json'')],
        req_timeout = 30\<rparr>]"
    using inst [THEN conjunct2, THEN conjunct1] caps by simp
  moreover have "fst ?zero = Inr 7"
    by (subst zero [THEN conjunct1]) (simp add: delegate_eq try_block_def)
  moreover have "snd ?zero =
      [\<lparr>req_url = py ''https://xmlopen.rejseplanen.dk/bin/rest.exe/stopsNearby'',
        req_params =
          [(py ''coordX'', py ''-0.0''), (py ''coordY'', py ''0.0''),
           (py ''maxRadius'', py ''1000''), (py ''maxNumber'', py ''10''),
           (py ''format'', py ''json'')],
        req_timeout = 30\<rparr>]"
    using zero [THEN conjunct2, THEN conjunct1] caps by simp
  ultimately show ?thesis
    by (simp add: prod_eq_iff)
qed

text \<open>
  Claim C4. \<open>nearby_stops\<close> ends with a \<open>ValueError\<close> exactly when \<open>latitude\<close> is
  not a value of \<open>[-90, 90]\<close> (NaN and the infinities are not), or \<open>longitude\<close> is
  not a value of \<open>[-180, 180]\<close>, or \<open>max_radius < 1\<close>, or \<open>max_number < 1\<close>. The
  bounds themselves, latitude \<open>\<plusminus>90\<close>, longitude \<open>\<plusminus>180\<close> and limits equal to 1,
  are accepted: the call raises no \<open>ValueError\<close> and issues its request.
\<close>

theorem C4_nearby_stops_validation:
  "((\<exists>m. fst (nearby_stops str_float upstream latitude longitude max_radius max_number sent) =
         Inl (ValueError m)) \<longleftrightarrow>
      \<not> (\<exists>r. float_value latitude = Some r \<and> - 90 \<le> r \<and> r \<le> 90) \<or>
      \<not> (\<exists>r. float_value longitude = Some r \<and> - 180 \<le> r \<and> r \<le> 180) \<or>
      max_radius < 1 \<or> max_number < 1) \<and>
   (latitude \<in> {Finite (- 90), Finite 90} \<and> longitude \<in> {Finite (- 180), Finite 180} \<and>
    max_radius = 1 \<and> max_number = 1 \<longrightarrow>
      (\<forall>m. fst (nearby_stops str_float upstream latitude longitude max_radius max_number sent)
           \<noteq> Inl (ValueError m)) \<and>
      length (snd (nearby_stops str_float upstream latitude longitude max_radius max_number
        sent)) = length sent + 1)"
proof -
  let ?call = "nearby_stops str_float upstream latitude longitude max_radius max_number sent"
  let ?lat = "int_le_float (- 90) latitude \<and> float_le_int latitude 90"
  let ?lon = "int_le_float (- 180) longitude \<and> float_le_int longitude 180"
  have lat: "?lat \<longleftrightarrow> (\<exists>r. float_value latitude = Some r \<and> - 90 \<le> r \<and> r \<le> 90)"
    using in_interval_iff [of "- 90" latitude 90] by simp
  have lon: "?lon \<longleftrightarrow> (\<exists>r. float_value longitude = Some r \<and> - 180 \<le> r \<and> r \<le> 180)"
    using in_interval_iff [of "- 180" longitude 180] by simp
  have iff: "(\<exists>m. fst ?call = Inl (ValueError m)) \<longleftrightarrow>
      \<not> ?lat \<or> \<not> ?lon \<or> max_radius < 1 \<or> max_number < 1"
  proof (cases "\<not> ?lat \<or> \<not> ?lon \<or> max_radius < 1 \<or> max_number < 1")
    case True
    from nearby_stops_invalid [OF True, of str_float upstream sent]
    have "\<exists>m. fst ?call = Inl (ValueError m)"
      by auto
    with True show ?thesis
      by blast
  next
    case False
    then have "?lat" and "?lon" and "1 \<le> max_radius" and "1 \<le> max_number"
      by auto
    from nearby_stops_valid [OF this, of str_float upstream sent]
    have "\<forall>m. fst ?call \<noteq> Inl (ValueError m)"
      by (simp add: delegate_not_ValueError)
    with False show ?thesis
      by blast
  qed
  have bounds: "latitude \<in> {Finite (- 90), Finite 90} \<and>
      longitude \<in> {Finite (- 180), Finite 180} \<and> max_radius = 1 \<and> max_number = 1 \<Longrightarrow>
      (\<forall>m. fst ?call \<noteq> Inl (ValueError m)) \<and> length (snd ?call) = length sent + 1"
  proof -
    assume b: "latitude \<in> {Finite (- 90), Finite 90} \<and>
      longitude \<in> {Finite (- 180), Finite 180} \<and> max_radius = 1 \<and> max_number = 1"
    then have "?lat" and "?lon" and "1 \<le> max_radius" and "1 \<le> max_number"
      by auto
    from nearby_stops_valid [OF this, of str_float upstream sent]
    show ?thesis
      by (simp only: delegate_not_ValueError delegate_length not_False_eq_True simp_thms)
  qed
  show ?thesis
    using iff lat lon bounds by blast
qed

text \<open>
  Latitude 95, a NaN latitude and \<open>max_number = 0\<close> are rejected; latitude 90 with
  longitude -180 and both limits 1 is accepted.
\<close>

theorem C4_nearby_stops_validation_witness:
  "(\<exists>m. fst (nearby_stops (\<lambda>f. py ''x'') (\<lambda>r. GetReturns (Response 200 (py ''7'') None (Inr (7::nat))))
            (Finite 95) (Finite 12.5683) 1000 10 []) = Inl (ValueError m)) \<and>
   (\<exists>m. fst (nearby_stops (\<lambda>f. py ''x'') (\<lambda>r. GetReturns (Response 200 (py ''7'') None (Inr (7::nat))))
            NaN (Finite 12.5683) 1000 10 []) = Inl (ValueError m)) \<and>
   (\<exists>m. fst (nearby_stops (\<lambda>f. py ''x'') (\<lambda>r. GetReturns (Response 200 (py ''7'') None (Inr (7::nat))))
            (Finite 55.6761) (Finite 12.5683) 1000 0 []) = Inl (ValueError m)) \<and>
   (\<forall>m. fst (nearby_stops (\<lambda>f. py ''x'') (\<lambda>r. GetReturns (Response 200 (py ''7'') None (Inr (7::nat))))
            (Finite 90) (Finite (- 180)) 1 1 []) \<noteq> Inl (ValueError m)) \<and>
   length (snd (nearby_stops (\<lambda>f. py ''x'') (\<lambda>r. GetReturns (Response 200 (py ''7'') None (Inr (7::nat))))
            (Finite 90) (Finite (- 180)) 1 1 [])) = 1"
proof -
  let ?sf = "\<lambda>f::pyfloat. py ''x''"
  let ?up = "\<lambda>r::request. GetReturns (Response 200 (py ''7'') None (Inr (7::nat)))"
  have a: "\<exists>m. fst (nearby_stops ?sf ?up (Finite 95) (Finite 12.5683) 1000 10 []) =
      Inl (ValueError m)"
    using C4_nearby_stops_validation [of ?sf ?up "Finite 95" "Finite 12.5683" 1000 10 "[]"]
    by simp
  have b: "\<exists>m. fst (nearby_stops ?sf ?up NaN (Finite 12.5683) 1000 10 []) =
      Inl (ValueError m)"
    using C4_nearby_stops_validation [of ?sf ?up NaN "Finite 12.5683" 1000 10 "[]"]
    by simp
  have c: "\<exists>m. fst (nearby_stops ?sf ?up (Finite 55.6761) (Finite 12.5683) 1000 0 []) =
      Inl (ValueError m)"
    using C4_nearby_stops_validation [of ?sf ?up "Finite 55.6761" "Finite 12.5683" 1000 0 "[]"]
    by simp
  have d: "(\<forall>m. fst (nearby_stops ?sf ?up (Finite 90) (Finite (- 180)) 1 1 []) \<noteq>
      Inl (ValueError m)) \<and>
      length (snd (nearby_stops ?sf ?up (Finite 90) (Finite (- 180)) 1 1 [])) = 1"
    using C4_nearby_stops_validation [of ?sf ?up "Finite 90" "Finite (- 180)" 1 1 "[]"]
    by simp
  from a b c d show ?thesis
    by blast
qed

text \<open>
  Claim C5. When \<open>origin_id\<close> and \<open>dest_id\<close> each hold a character that is not
  whitespace and \<open>date\<close> and \<open>time\<close> are absent, \<open>trip_search\<close> hands the helper
  exactly \<open>originId\<close> and \<open>destId\<close>, both trimmed, and the four flags \<open>useTog\<close>,
  \<open>useBus\<close>, \<open>useMetro\<close>, \<open>useFerry\<close>, each \<open>"1"\<close> for true and \<open>"0"\<close> for false
  and always present, against the endpoint \<open>trip\<close>. The one request issued carries
  these six followed by the helper's \<open>format = json\<close>, and no \<open>date\<close> or \<open>time\<close>
  key.
\<close>

theorem C5_trip_search_params:
  assumes "\<not> (\<forall>c\<in>set origin_id. isspace c)" and "\<not> (\<forall>c\<in>set dest_id. isspace c)"
  shows "trip_search upstream origin_id dest_id None None use_train use_bus use_metro use_ferry
         sent =
       delegate upstream (py ''trip'')
         [(py ''originId'', strip origin_id), (py ''destId'', strip dest_id),
          (py ''useTog'', if use_train then py ''1'' else py ''0''),
          (py ''useBus'', if use_bus then py ''1'' else py ''0''),
          (py ''useMetro'', if use_metro then py ''1'' else py ''0''),
          (py ''useFerry'', if use_ferry then py ''1'' else py ''0'')] sent \<and>
     snd (trip_search upstream origin_id dest_id None None use_train use_bus use_metro use_ferry
         sent) =
       sent @ [\<lparr>req_url = py ''https://xmlopen.rejseplanen.dk/bin/rest.exe/trip'',
                 req_params =
                   [(py ''originId'', strip origin_id), (py ''destId'', strip dest_id),
                    (py ''useTog'', if use_train then py ''1'' else py ''0''),
                    (py ''useBus'', if use_bus then py ''1'' else py ''0''),
                    (py ''useMetro'', if use_metro then py ''1'' else py ''0''),
                    (py ''useFerry'', if use_ferry then py ''1'' else py ''0''),
                    (py ''format'', py ''json'')],
                 req_timeout = 30\<rparr>] \<and>
     py ''date'' \<notin> fst ` set (req_params (last (snd (trip_search upstream origin_id dest_id
         None None use_train use_bus use_metro use_ferry sent)))) \<and>
     py ''time'' \<notin> fst ` set (req_params (last (snd (trip_search upstream origin_id dest_id
         None None use_train use_bus use_metro use_ferry sent))))"
proof -
  let ?call = "trip_search upstream origin_id dest_id None None use_train use_bus use_metro
      use_ferry sent"
  let ?params = "[(py ''originId'', strip origin_id), (py ''destId'', strip dest_id),
      (py ''useTog'', if use_train then py ''1'' else py ''0''),
      (py ''useBus'', if use_bus then py ''1'' else py ''0''),
      (py ''useMetro'', if use_metro then py ''1'' else py ''0''),
      (py ''useFerry'', if use_ferry then py ''1'' else py ''0'')]"
  have eq: "?call = delegate upstream (py ''trip'') ?params sent"
    using trip_search_valid [OF assms, of upstream None None use_train use_bus use_metro
        use_ferry sent]
    by simp
  have upd: "AList.update (py ''format'') (py ''json'') ?params =
      ?params @ [(py ''format'', py ''json'')]"
    by (simp add: trip_params_keys)
  have req: "snd ?call =
      sent @ [\<lparr>req_url = py ''https://xmlopen.rejseplanen.dk/bin/rest.exe/trip'',
                req_params = ?params @ [(py ''format'', py ''json'')],
                req_timeout = 30\<rparr>]"
    by (simp only: eq delegate_snd upd url_trip)
  have "py ''date'' \<notin> fst ` set (req_params (last (snd ?call)))"
    by (simp add: req py_def)
  moreover have "py ''time'' \<notin> fst ` set (req_params (last (snd ?call)))"
    by (simp add: req py_def)
  ultimately show ?thesis
    using eq req by simp
qed

text \<open>
  The spec's two examples: the defaults, and \<open>use_bus = false\<close>.
\<close>

theorem C5_trip_search_params_witness:
  "trip_search (\<lambda>r. GetReturns (Response 200 (py ''7'') None (Inr (7::nat))))
       (py ''008600626'') (py ''008600053'') None None True True True True [] =
     (Inr 7,
      [\<lparr>req_url = py ''https://xmlopen.rejseplanen.dk/bin/rest.exe/trip'',
        req_params =
          [(py ''originId'', py ''008600626''), (py ''destId'', py ''008600053''),
           (py ''useTog'', py ''1''), (py ''useBus'', py ''1''),
           (py ''useMetro'', py ''1''), (py ''useFerry'', py ''1''),
           (py ''format'', py ''json'')],
        req_timeout = 30\<rparr>]) \<and>
   snd (trip_search (\<lambda>r. GetReturns (Response 200 (py ''7'') None (Inr (7::nat))))
       (py '' A'') (py ''B '') None None True False True True []) =
     [\<lparr>req_url = py ''https://xmlopen.rejseplanen.dk/bin/rest.exe/trip'',
       req_params =
         [(py ''originId'', py ''A''), (py ''destId'', py ''B''),
          (py ''useTog'', py ''1''), (py ''useBus'', py ''0''),
          (py ''useMetro'', py ''1''), (py ''useFerry'', py ''1''),
          (py ''format'', py ''json'')],
       req_timeout = 30\<rparr>]"
proof -
  let ?up = "\<lambda>r::request. GetReturns (Response 200 (py ''7'') None (Inr (7::nat)))"
  have v: "\<not> (\<forall>c\<in>set (py ''008600626''). isspace c)"
    "\<not> (\<forall>c\<in>set (py ''008600053''). isspace c)"
    "\<not> (\<forall>c\<in>set (py '' A''). isspace c)" "\<not> (\<forall>c\<in>set (py ''B ''). isspace c)"
    by (simp_all add: py_def isspace_def)
  have st: "strip (py ''008600626'') = py ''008600626''"
    "strip (py ''008600053'') = py ''008600053''"
    "strip (py '' A'') = py ''A''" "strip (py ''B '') = py ''B''"
    by (simp_all add: py_def strip_def isspace_def)
  note a = C5_trip_search_params [OF v(1) v(2), of ?up True True True True "[]"]
  note b = C5_trip_search_params [OF v(3) v(4), of ?up True False True True "[]"]
  have "fst (trip_search ?up (py ''008600626'') (py ''008600053'') None None True True True
      True []) = Inr 7"
    by (subst a [THEN conjunct1]) (simp add: delegate_eq try_block_def)
  then show ?thesis
    using a [THEN conjunct2, THEN conjunct1] b [THEN conjunct2, THEN conjunct1] st
    by (simp add: prod_eq_iff)
qed

text \<open>
  Claim C6. \<open>location_search\<close> fails with a \<open>ValueError\<close> (the spec's
  \<open>InvalidArgument\<close>) exactly when every character of \<open>query\<close> is whitespace, the
  empty query included, and then with the message of the source and no request. For
  every other query it delegates to the helper with the single parameter
  \<open>input = query.strip()\<close> against the endpoint \<open>location\<close>, so the one request
  issued carries \<open>input\<close> and the helper's \<open>format = json\<close>. The trimmed value is
  the query with a whitespace prefix and a whitespace suffix removed and nothing else
  changed: it begins and ends with a character that is not whitespace.
\<close>

theorem C6_location_search:
  "((\<exists>m. fst (location_search upstream query sent) = Inl (ValueError m)) \<longleftrightarrow>
      (\<forall>c\<in>set query. isspace c)) \<and>
   ((\<forall>c\<in>set query. isspace c) \<longrightarrow>
      location_search upstream query sent =
        (Inl (ValueError (py ''Search query cannot be empty'')), sent)) \<and>
   (\<not> (\<forall>c\<in>set query. isspace c) \<longrightarrow>
      location_search upstream query sent =
        delegate upstream (py ''location'') [(py ''input'', strip query)] sent \<and>
      snd (location_search upstream query sent) =
        sent @ [\<lparr>req_url = py ''https://xmlopen.rejseplanen.dk/bin/rest.exe/location'',
                  req_params = [(py ''input'', strip query), (py ''format'', py ''json'')],
                  req_timeout = 30\<rparr>] \<and>
      (\<exists>a b. query = a @ strip query @ b \<and>
             (\<forall>c\<in>set a. isspace c) \<and> (\<forall>c\<in>set b. isspace c)) \<and>
      \<not> isspace (hd (strip query)) \<and> \<not> isspace (last (strip query)))"
proof -
  have empty: "query = [] \<or> strip query = [] \<longleftrightarrow> (\<forall>c\<in>set query. isspace c)"
    using strip_empty_iff [of query] by auto
  have bad: "(\<forall>c\<in>set query. isspace c) \<Longrightarrow>
      location_search upstream query sent =
        (Inl (ValueError (py ''Search query cannot be empty'')), sent)"
  proof -
    assume "\<forall>c\<in>set query. isspace c"
    with empty have "query = [] \<or> strip query = []"
      by blast
    then show ?thesis
      by (simp add: location_search_def)
  qed
  have good: "\<not> (\<forall>c\<in>set query. isspace c) \<Longrightarrow>
      location_search upstream query sent =
        delegate upstream (py ''location'') [(py ''input'', strip query)] sent"
  proof -
    assume "\<not> (\<forall>c\<in>set query. isspace c)"
    with empty have "\<not> (query = [] \<or> strip query = [])"
      by blast
    then show ?thesis
      by (simp add: location_search_def)
  qed
  have iff: "(\<exists>m. fst (location_search upstream query sent) = Inl (ValueError m)) \<longleftrightarrow>
      (\<forall>c\<in>set query. isspace c)"
  proof (cases "\<forall>c\<in>set query. isspace c")
    case True
    then show ?thesis using bad by simp
  next
    case False
    then show ?thesis using good delegate_not_ValueError by metis
  qed
  have keys: "py ''input'' \<noteq> py ''format''"
    by (simp add: py_def)
  have url: "REJSEPLANEN_API_BASE @ py ''/'' @ py ''location'' =
      py ''https://xmlopen.rejseplanen.dk/bin/rest.exe/location''"
    by (simp add: REJSEPLANEN_API_BASE_def py_def)
  have req: "\<not> (\<forall>c\<in>set query. isspace c) \<Longrightarrow>
      snd (location_search upstream query sent) =
        sent @ [\<lparr>req_url = py ''https://xmlopen.rejseplanen.dk/bin/rest.exe/location'',
                  req_params = [(py ''input'', strip query), (py ''format'', py ''json'')],
                  req_timeout = 30\<rparr>]"
    using good keys url by (simp add: delegate_eq REQUEST_TIMEOUT_def)
  have decomp: "\<exists>a b. query = a @ strip query @ b \<and>
             (\<forall>c\<in>set a. isspace c) \<and> (\<forall>c\<in>set b. isspace c)"
  proof (intro exI conjI)
    show "query = takeWhile isspace query @ strip query @
        rev (takeWhile isspace (rev (dropWhile isspace query)))"
      by (rule strip_decomp)
    show "\<forall>c\<in>set (takeWhile isspace query). isspace c"
      by (auto dest: set_takeWhileD)
    show "\<forall>c\<in>set (rev (takeWhile isspace (rev (dropWhile isspace query)))). isspace c"
      by (auto dest: set_takeWhileD)
  qed
  have ends: "\<not> (\<forall>c\<in>set query. isspace c) \<Longrightarrow>
      \<not> isspace (hd (strip query)) \<and> \<not> isspace (last (strip query))"
    using strip_empty_iff [of query] strip_hd [of query] strip_last [of query] by blast
  show ?thesis
    using iff bad good req decomp ends by blast
qed

text \<open>
  A blank query is rejected; a station name holding the letter U+00F8, with blanks
  around it, is sent trimmed and otherwise as it is.
\<close>

theorem C6_location_search_witness:
  "fst (location_search (\<lambda>r. GetReturns (Response 200 (py ''7'') None (Inr (7::nat)))) (py ''   '') []) =
     Inl (ValueError (py ''Search query cannot be empty'')) \<and>
   location_search (\<lambda>r. GetReturns (Response 200 (py ''7'') None (Inr (7::nat))))
       (py ''  K'' @ [248] @ py ''benhavn H '') [] =
     (Inr 7,
      [\<lparr>req_url = py ''https://xmlopen.rejseplanen.dk/bin/rest.exe/location'',
        req_params = [(py ''input'', py ''K'' @ [248] @ py ''benhavn H''),
                      (py ''format'', py ''json'')],
        req_timeout = 30\<rparr>])"
proof -
  let ?up = "\<lambda>r::request. GetReturns (Response 200 (py ''7'') None (Inr (7::nat)))"
  let ?q = "py ''  K'' @ [248] @ py ''benhavn H ''"
  have ws: "\<forall>c\<in>set (py ''   ''). isspace c"
    by (simp add: py_def isspace_def)
  have nws: "\<not> (\<forall>c\<in>set ?q. isspace c)"
    by (simp add: py_def isspace_def)
  have st: "strip ?q = py ''K'' @ [248] @ py ''benhavn H''"
    by (simp add: py_def strip_def isspace_def)
  have r: "fst (delegate ?up (py ''location'') [(py ''input'', strip ?q)] []) = Inr 7"
    by (simp add: delegate_eq try_block_def)
  from C6_location_search [of ?up "py ''   ''" "[]"] ws
  have a: "location_search ?up (py ''   '') [] =
      (Inl (ValueError (py ''Search query cannot be empty'')), [])"
    by blast
  from C6_location_search [of ?up ?q "[]"] nws
  have b: "location_search ?up ?q [] =
        delegate ?up (py ''location'') [(py ''input'', strip ?q)] []"
    and c: "snd (location_search ?up ?q []) =
        [] @ [\<lparr>req_url = py ''https://xmlopen.rejseplanen.dk/bin/rest.exe/location'',
                req_params = [(py ''input'', strip ?q), (py ''format'', py ''json'')],
                req_timeout = 30\<rparr>]"
    by blast+
  from b r have "fst (location_search ?up ?q []) = Inr 7"
    by simp
  with a c st show ?thesis
    by (simp add: prod_eq_iff)
qed

text \<open>
  Claim C7. Whenever one of the four network-calling handlers returns a value, the list
  of issued requests has grown by exactly one request, sent to the handler's endpoint,
  whose parameters bind \<open>format\<close> to \<open>json\<close> and whose answer is the value returned:
  the upstream is asked once and never again. The helper itself issues exactly one
  request on every call, with the caller's parameters in which \<open>format\<close> has been set
  to \<open>json\<close>, over any value the caller had put there; in a dictionary (distinct keys)
  the key occurs once. And each of the four handlers does issue that request whenever its
  arguments pass validation: its result is then the helper's result for the answer to
  that one request, a value exactly when the upstream answers with one.
\<close>

theorem C7_one_request_format_json:
  "(fst (location_search upstream query sent) = Inr v \<longrightarrow>
      (\<exists>req. snd (location_search upstream query sent) = sent @ [req] \<and>
         req_url req = REJSEPLANEN_API_BASE @ py ''/'' @ py ''location'' \<and>
         map_of (req_params req) (py ''format'') = Some (py ''json'') \<and>
         try_block (upstream req) = Inr v)) \<and>
   (fst (trip_search upstream origin_id dest_id date time use_train use_bus use_metro use_ferry
        sent) = Inr v \<longrightarrow>
      (\<exists>req. snd (trip_search upstream origin_id dest_id date time use_train use_bus use_metro
           use_ferry sent) = sent @ [req] \<and>
         req_url req = REJSEPLANEN_API_BASE @ py ''/'' @ py ''trip'' \<and>
         map_of (req_params req) (py ''format'') = Some (py ''json'') \<and>
         try_block (upstream req) = Inr v)) \<and>
   (fst (departure_board upstream station_id date time sent) = Inr v \<longrightarrow>
      (\<exists>req. snd (departure_board upstream station_id date time sent) = sent @ [req] \<and>
         req_url req = REJSEPLANEN_API_BASE @ py ''/'' @ py ''departureBoard'' \<and>
         map_of (req_params req) (py ''format'') = Some (py ''json'') \<and>
         try_block (upstream req) = Inr v)) \<and>
   (fst (nearby_stops str_float upstream latitude longitude max_radius max_number sent) =
        Inr v \<longrightarrow>
      (\<exists>req. snd (nearby_stops str_float upstream latitude longitude max_radius max_number
           sent) = sent @ [req] \<and>
         req_url req = REJSEPLANEN_API_BASE @ py ''/'' @ py ''stopsNearby'' \<and>
         map_of (req_params req) (py ''format'') = Some (py ''json'') \<and>
         try_block (upstream req) = Inr v)) \<and>
   (\<exists>req. make_api_request upstream endpoint params sent =
        (try_block (upstream req), req_params req, sent @ [req]) \<and>
      req_params req = AList.update (py ''format'') (py ''json'') params \<and>
      map_of (req_params req) (py ''format'') = Some (py ''json'') \<and>
      (distinct (map fst params) \<longrightarrow>
         length (filter (\<lambda>kv. fst kv = py ''format'') (req_params req)) = 1)) \<and>
   (\<not> (\<forall>c\<in>set query. isspace c) \<longrightarrow>
      (\<exists>req. snd (location_search upstream query sent) = sent @ [req] \<and>
         req_url req = REJSEPLANEN_API_BASE @ py ''/'' @ py ''location'' \<and>
         map_of (req_params req) (py ''format'') = Some (py ''json'') \<and>
         fst (location_search upstream query sent) = try_block (upstream req))) \<and>
   (\<not> (\<forall>c\<in>set origin_id. isspace c) \<and> \<not> (\<forall>c\<in>set dest_id. isspace c) \<longrightarrow>
      (\<exists>req. snd (trip_search upstream origin_id dest_id date time use_train use_bus use_metro
           use_ferry sent) = sent @ [req] \<and>
         req_url req = REJSEPLANEN_API_BASE @ py ''/'' @ py ''trip'' \<and>
         map_of (req_params req) (py ''format'') = Some (py ''json'') \<and>
         fst (trip_search upstream origin_id dest_id date time use_train use_bus use_metro
           use_ferry sent) = try_block (upstream req))) \<and>
   (\<not> (\<forall>c\<in>set station_id. isspace c) \<longrightarrow>
      (\<exists>req. snd (departure_board upstream station_id date time sent) = sent @ [req] \<and>
         req_url req = REJSEPLANEN_API_BASE @ py ''/'' @ py ''departureBoard'' \<and>
         map_of (req_params req) (py ''format'') = Some (py ''json'') \<and>
         fst (departure_board upstream station_id date time sent) = try_block (upstream req))) \<and>
   ((\<exists>r. float_value latitude = Some r \<and> - 90 \<le> r \<and> r \<le> 90) \<and>
    (\<exists>r. float_value longitude = Some r \<and> - 180 \<le> r \<and> r \<le> 180) \<and>
    1 \<le> max_radius \<and> 1 \<le> max_number \<longrightarrow>
      (\<exists>req. snd (nearby_stops str_float upstream latitude longitude max_radius max_number
           sent) = sent @ [req] \<and>
         req_url req = REJSEPLANEN_API_BASE @ py ''/'' @ py ''stopsNearby'' \<and>
         map_of (req_params req) (py ''format'') = Some (py ''json'') \<and>
         fst (nearby_stops str_float upstream latitude longitude max_radius max_number sent) =
           try_block (upstream req)))"
proof (intro conjI impI)
  assume "fst (location_search upstream query sent) = Inr v"
  with location_search_cases
  show "\<exists>req. snd (location_search upstream query sent) = sent @ [req] \<and>
         req_url req = REJSEPLANEN_API_BASE @ py ''/'' @ py ''location'' \<and>
         map_of (req_params req) (py ''format'') = Some (py ''json'') \<and>
         try_block (upstream req) = Inr v"
    by (rule success_one_request)
next
  assume "fst (trip_search upstream origin_id dest_id date time use_train use_bus use_metro
      use_ferry sent) = Inr v"
  with trip_search_cases
  show "\<exists>req. snd (trip_search upstream origin_id dest_id date time use_train use_bus
           use_metro use_ferry sent) = sent @ [req] \<and>
         req_url req = REJSEPLANEN_API_BASE @ py ''/'' @ py ''trip'' \<and>
         map_of (req_params req) (py ''format'') = Some (py ''json'') \<and>
         try_block (upstream req) = Inr v"
    by (rule success_one_request)
next
  assume "fst (departure_board upstream station_id date time sent) = Inr v"
  with departure_board_cases
  show "\<exists>req. snd (departure_board upstream station_id date time sent) = sent @ [req] \<and>
         req_url req = REJSEPLANEN_API_BASE @ py ''/'' @ py ''departureBoard'' \<and>
         map_of (req_params req) (py ''format'') = Some (py ''json'') \<and>
         try_block (upstream req) = Inr v"
    by (rule success_one_request)
next
  assume "fst (nearby_stops str_float upstream latitude longitude max_radius max_number sent) =
      Inr v"
  with nearby_stops_cases
  show "\<exists>req. snd (nearby_stops str_float upstream latitude longitude max_radius max_number
           sent) = sent @ [req] \<and>
         req_url req = REJSEPLANEN_API_BASE @ py ''/'' @ py ''stopsNearby'' \<and>
         map_of (req_params req) (py ''format'') = Some (py ''json'') \<and>
         try_block (upstream req) = Inr v"
    by (rule success_one_request)
next
  let ?req = "\<lparr>req_url = REJSEPLANEN_API_BASE @ py ''/'' @ endpoint,
      req_params = AList.update (py ''format'') (py ''json'') params,
      req_timeout = REQUEST_TIMEOUT\<rparr>"
  have "make_api_request upstream endpoint params sent =
      (try_block (upstream ?req), req_params ?req, sent @ [?req])"
    by (simp add: make_api_request_eq)
  moreover have "req_params ?req = AList.update (py ''format'') (py ''json'') params"
    by simp
  moreover have "map_of (req_params ?req) (py ''format'') = Some (py ''json'')"
    by (simp add: format_injected)
  moreover have "distinct (map fst params) \<longrightarrow>
      length (filter (\<lambda>kv. fst kv = py ''format'') (req_params ?req)) = 1"
    by (simp add: format_once)
  ultimately show "\<exists>req. make_api_request upstream endpoint params sent =
        (try_block (upstream req), req_params req, sent @ [req]) \<and>
      req_params req = AList.update (py ''format'') (py ''json'') params \<and>
      map_of (req_params req) (py ''format'') = Some (py ''json'') \<and>
      (distinct (map fst params) \<longrightarrow>
         length (filter (\<lambda>kv. fst kv = py ''format'') (req_params req)) = 1)"
    by blast
next
  assume "\<not> (\<forall>c\<in>set query. isspace c)"
  then have "location_search upstream query sent =
      delegate upstream (py ''location'') [(py ''input'', strip query)] sent"
    by (rule location_search_valid)
  then show "\<exists>req. snd (location_search upstream query sent) = sent @ [req] \<and>
         req_url req = REJSEPLANEN_API_BASE @ py ''/'' @ py ''location'' \<and>
         map_of (req_params req) (py ''format'') = Some (py ''json'') \<and>
         fst (location_search upstream query sent) = try_block (upstream req)"
    by (rule valid_one_request)
next
  assume "\<not> (\<forall>c\<in>set origin_id. isspace c) \<and> \<not> (\<forall>c\<in>set dest_id. isspace c)"
  then have "\<not> (\<forall>c\<in>set origin_id. isspace c)" and "\<not> (\<forall>c\<in>set dest_id. isspace c)"
    by simp_all
  from trip_search_valid [OF this]
  show "\<exists>req. snd (trip_search upstream origin_id dest_id date time use_train use_bus
           use_metro use_ferry sent) = sent @ [req] \<and>
         req_url req = REJSEPLANEN_API_BASE @ py ''/'' @ py ''trip'' \<and>
         map_of (req_params req) (py ''format'') = Some (py ''json'') \<and>
         fst (trip_search upstream origin_id dest_id date time use_train use_bus use_metro
           use_ferry sent) = try_block (upstream req)"
    by (rule valid_one_request)
next
  assume "\<not> (\<forall>c\<in>set station_id. isspace c)"
  from departure_board_valid [OF this]
  show "\<exists>req. snd (departure_board upstream station_id date time sent) = sent @ [req] \<and>
         req_url req = REJSEPLANEN_API_BASE @ py ''/'' @ py ''departureBoard'' \<and>
         map_of (req_params req) (py ''format'') = Some (py ''json'') \<and>
         fst (departure_board upstream station_id date time sent) = try_block (upstream req)"
    by (rule valid_one_request)
next
  assume "(\<exists>r. float_value latitude = Some r \<and> - 90 \<le> r \<and> r \<le> 90) \<and>
    (\<exists>r. float_value longitude = Some r \<and> - 180 \<le> r \<and> r \<le> 180) \<and>
    1 \<le> max_radius \<and> 1 \<le> max_number"
  then have "int_le_float (- 90) latitude \<and> float_le_int latitude 90"
    and "int_le_float (- 180) longitude \<and> float_le_int longitude 180"
    and "1 \<le> max_radius" and "1 \<le> max_number"
    using in_interval_iff [of "- 90" latitude 90] in_interval_iff [of "- 180" longitude 180]
    by simp_all
  from nearby_stops_valid [OF this]
  show "\<exists>req. snd (nearby_stops str_float upstream latitude longitude max_radius max_number
           sent) = sent @ [req] \<and>
         req_url req = REJSEPLANEN_API_BASE @ py ''/'' @ py ''stopsNearby'' \<and>
         map_of (req_params req) (py ''format'') = Some (py ''json'') \<and>
         fst (nearby_stops str_float upstream latitude longitude max_radius max_number sent) =
           try_block (upstream req)"
    by (rule valid_one_request)
qed

text \<open>
  A successful call of each of the four handlers, each with its one request and
  \<open>format = json\<close> in it, and the helper called with \<open>format = xml\<close>.
\<close>

theorem C7_one_request_format_json_witness:
  "(fst (location_search (\<lambda>r. GetReturns (Response 200 (py ''7'') None (Inr (7::nat))))
        (py ''X'') []) = Inr 7 \<and>
    (\<exists>req. snd (location_search (\<lambda>r. GetReturns (Response 200 (py ''7'') None (Inr (7::nat))))
          (py ''X'') []) = [req] \<and>
       req_url req = py ''https://xmlopen.rejseplanen.dk/bin/rest.exe/location'' \<and>
       map_of (req_params req) (py ''format'') = Some (py ''json''))) \<and>
   (fst (trip_search (\<lambda>r. GetReturns (Response 200 (py ''7'') None (Inr (7::nat))))
        (py ''A'') (py ''B'') None None True True True True []) = Inr 7 \<and>
    (\<exists>req. snd (trip_search (\<lambda>r. GetReturns (Response 200 (py ''7'') None (Inr (7::nat))))
          (py ''A'') (py ''B'') None None True True True True []) = [req] \<and>
       req_url req = py ''https://xmlopen.rejseplanen.dk/bin/rest.exe/trip'' \<and>
       map_of (req_params req) (py ''format'') = Some (py ''json''))) \<and>
   (fst (departure_board (\<lambda>r. GetReturns (Response 200 (py ''7'') None (Inr (7::nat))))
        (py ''S'') None None []) = Inr 7 \<and>
    (\<exists>req. snd (departure_board (\<lambda>r. GetReturns (Response 200 (py ''7'') None (Inr (7::nat))))
          (py ''S'') None None []) = [req] \<and>
       req_url req = py ''https://xmlopen.rejseplanen.dk/bin/rest.exe/departureBoard'' \<and>
       map_of (req_params req) (py ''format'') = Some (py ''json''))) \<and>
   (fst (nearby_stops (\<lambda>f. py ''0.0'')
        (\<lambda>r. GetReturns (Response 200 (py ''7'') None (Inr (7::nat))))
        (Finite 0) (Finite 0) 1 1 []) = Inr 7 \<and>
    (\<exists>req. snd (nearby_stops (\<lambda>f. py ''0.0'')
          (\<lambda>r. GetReturns (Response 200 (py ''7'') None (Inr (7::nat))))
          (Finite 0) (Finite 0) 1 1 []) = [req] \<and>
       req_url req = py ''https://xmlopen.rejseplanen.dk/bin/rest.exe/stopsNearby'' \<and>
       map_of (req_params req) (py ''format'') = Some (py ''json''))) \<and>
   (\<exists>req. make_api_request (\<lambda>r. GetReturns (Response 200 (py ''7'') None (Inr (7::nat))))
        (py ''trip'') [(py ''format'', py ''xml''), (py ''originId'', py ''A'')] [] =
        (Inr 7, req_params req, [req]) \<and>
      req_params req = [(py ''format'', py ''json''), (py ''originId'', py ''A'')] \<and>
      length (filter (\<lambda>kv. fst kv = py ''format'') (req_params req)) = 1)"
proof -
  let ?up = "\<lambda>r::request. GetReturns (Response 200 (py ''7'') None (Inr (7::nat)))"
  let ?sf = "\<lambda>f::pyfloat. py ''0.0''"
  let ?ps = "[(py ''format'', py ''xml''), (py ''originId'', py ''A'')]"
  note inst = C7_one_request_format_json [of ?up "py ''X''" "[]" 7 "py ''A''" "py ''B''" None
      None True True True True "py ''S''" ?sf "Finite 0" "Finite 0" 1 1 "py ''trip''" ?ps]
  note g1 = inst [THEN conjunct1]
  note g2 = inst [THEN conjunct2, THEN conjunct1]
  note g3 = inst [THEN conjunct2, THEN conjunct2, THEN conjunct1]
  note g4 = inst [THEN conjunct2, THEN conjunct2, THEN conjunct2, THEN conjunct1]
  note g5 = inst [THEN conjunct2, THEN conjunct2, THEN conjunct2, THEN conjunct2,
      THEN conjunct1]
  note n1 = inst [THEN conjunct2, THEN conjunct2, THEN conjunct2, THEN conjunct2,
      THEN conjunct2, THEN conjunct1]
  note n2 = inst [THEN conjunct2, THEN conjunct2, THEN conjunct2, THEN conjunct2,
      THEN conjunct2, THEN conjunct2, THEN conjunct1]
  note n3 = inst [THEN conjunct2, THEN conjunct2, THEN conjunct2, THEN conjunct2,
      THEN conjunct2, THEN conjunct2, THEN conjunct2, THEN conjunct1]
  note n4 = inst [THEN conjunct2, THEN conjunct2, THEN conjunct2, THEN conjunct2,
      THEN conjunct2, THEN conjunct2, THEN conjunct2, THEN conjunct2]
  have v: "\<not> (\<forall>c\<in>set (py ''X''). isspace c)"
    "\<not> (\<forall>c\<in>set (py ''A''). isspace c) \<and> \<not> (\<forall>c\<in>set (py ''B''). isspace c)"
    "\<not> (\<forall>c\<in>set (py ''S''). isspace c)"
    "(\<exists>r. float_value (Finite 0) = Some r \<and> - 90 \<le> r \<and> r \<le> 90) \<and>
     (\<exists>r. float_value (Finite 0) = Some r \<and> - 180 \<le> r \<and> r \<le> 180) \<and>
     (1::int) \<le> 1 \<and> (1::int) \<le> 1"
    by (simp_all add: py_def isspace_def)
  have t: "try_block (?up req) = Inr 7" for req
    by (simp add: try_block_def)
  have ok1: "fst (location_search ?up (py ''X'') []) = Inr 7"
    using n1 v(1) t by auto
  have ok2: "fst (trip_search ?up (py ''A'') (py ''B'') None None True True True True []) =
      Inr 7"
    using n2 v(2) t by auto
  have ok3: "fst (departure_board ?up (py ''S'') None None []) = Inr 7"
    using n3 v(3) t by auto
  have ok4: "fst (nearby_stops ?sf ?up (Finite 0) (Finite 0) 1 1 []) = Inr 7"
    using n4 v(4) t by auto
  have a1: "\<exists>req. snd (location_search ?up (py ''X'') []) = [req] \<and>
      req_url req = py ''https://xmlopen.rejseplanen.dk/bin/rest.exe/location'' \<and>
      map_of (req_params req) (py ''format'') = Some (py ''json'')"
    using g1 ok1 unfolding url_location by auto
  have a2: "\<exists>req. snd (trip_search ?up (py ''A'') (py ''B'') None None True True True True
        []) = [req] \<and>
      req_url req = py ''https://xmlopen.rejseplanen.dk/bin/rest.exe/trip'' \<and>
      map_of (req_params req) (py ''format'') = Some (py ''json'')"
    using g2 ok2 unfolding url_trip by auto
  have a3: "\<exists>req. snd (departure_board ?up (py ''S'') None None []) = [req] \<and>
      req_url req = py ''https://xmlopen.rejseplanen.dk/bin/rest.exe/departureBoard'' \<and>
      map_of (req_params req) (py ''format'') = Some (py ''json'')"
    using g3 ok3 unfolding url_departureBoard by auto
  have a4: "\<exists>req. snd (nearby_stops ?sf ?up (Finite 0) (Finite 0) 1 1 []) = [req] \<and>
      req_url req = py ''https://xmlopen.rejseplanen.dk/bin/rest.exe/stopsNearby'' \<and>
      map_of (req_params req) (py ''format'') = Some (py ''json'')"
    using g4 ok4 unfolding url_stopsNearby by auto
  have d: "distinct (map fst ?ps)"
    by (simp add: py_def)
  have u: "AList.update (py ''format'') (py ''json'') ?ps =
      [(py ''format'', py ''json''), (py ''originId'', py ''A'')]"
    by simp
  from g5 d
  have b: "\<exists>req. make_api_request ?up (py ''trip'') ?ps [] =
        (Inr 7, req_params req, [req]) \<and>
      req_params req = [(py ''format'', py ''json''), (py ''originId'', py ''A'')] \<and>
      length (filter (\<lambda>kv. fst kv = py ''format'') (req_params req)) = 1"
    unfolding u t by auto
  from ok1 a1 ok2 a2 ok3 a3 ok4 a4 b show ?thesis
    by (intro conjI)
qed



text \<open>
  Claim C9. \<open>make_api_request\<close> writes into the dictionary it is given. Whatever the
  upstream does, so whether the call returns or raises, the caller's dictionary after the
  call binds \<open>format\<close> to \<open>json\<close> and is otherwise unchanged, it is the very
  dictionary that went out with the request, and it differs from the dictionary before
  the call unless that one bound \<open>format\<close> to \<open>json\<close> already.
\<close>

theorem C9_caller_params_mutated:
  assumes "make_api_request upstream endpoint params sent = (r, params', sent')"
  shows "params' = AList.update (py ''format'') (py ''json'') params \<and>
     map_of params' (py ''format'') = Some (py ''json'') \<and>
     (\<forall>k. k \<noteq> py ''format'' \<longrightarrow> map_of params' k = map_of params k) \<and>
     req_params (last sent') = params' \<and>
     (map_of params (py ''format'') \<noteq> Some (py ''json'') \<longrightarrow> params' \<noteq> params)"
proof -
  from assms have p: "params' = AList.update (py ''format'') (py ''json'') params"
    and s: "sent' = sent @ [\<lparr>req_url = REJSEPLANEN_API_BASE @ py ''/'' @ endpoint,
               req_params = AList.update (py ''format'') (py ''json'') params,
               req_timeout = REQUEST_TIMEOUT\<rparr>]"
    by (auto simp: make_api_request_eq)
  have f: "map_of params' (py ''format'') = Some (py ''json'')"
    by (simp add: p format_injected)
  have o: "\<forall>k. k \<noteq> py ''format'' \<longrightarrow> map_of params' k = map_of params k"
    by (simp add: p update_conv')
  have l: "req_params (last sent') = params'"
    by (simp add: p s)
  have "map_of params (py ''format'') \<noteq> Some (py ''json'') \<longrightarrow> params' \<noteq> params"
    using f by auto
  with p f o l show ?thesis
    by blast
qed

text \<open>
  A call that times out: the caller's \<open>{input: X}\<close> has become
  \<open>{input: X, format: json}\<close>.
\<close>

theorem C9_caller_params_mutated_witness:
  "make_api_request (\<lambda>r. GetRaises (Raised Timeout (py ''read timed out'')) :: nat get_outcome)
       (py ''location'') [(py ''input'', py ''X'')] [] =
     (Inl (Exception (py ''Request to Rejseplanen API timed out after 30 seconds'')),
      [(py ''input'', py ''X''), (py ''format'', py ''json'')],
      [\<lparr>req_url = py ''https://xmlopen.rejseplanen.dk/bin/rest.exe/location'',
        req_params = [(py ''input'', py ''X''), (py ''format'', py ''json'')],
        req_timeout = 30\<rparr>]) \<and>
   [(py ''input'', py ''X''), (py ''format'', py ''json'')] \<noteq> [(py ''input'', py ''X'')]"
proof -
  let ?up = "\<lambda>r::request. GetRaises (Raised Timeout (py ''read timed out'')) :: nat get_outcome"
  let ?ps = "[(py ''input'', py ''X'')]"
  let ?ps' = "[(py ''input'', py ''X''), (py ''format'', py ''json'')]"
  let ?req = "\<lparr>req_url = py ''https://xmlopen.rejseplanen.dk/bin/rest.exe/location'',
        req_params = ?ps', req_timeout = 30\<rparr>"
  have k: "py ''input'' \<noteq> py ''format''"
    by (simp add: py_def)
  have msg: "py ''Request to Rejseplanen API timed out after '' @ str_int 30 @ py '' seconds'' =
      py ''Request to Rejseplanen API timed out after 30 seconds''"
    by (simp add: str_int_caps) (simp add: py_def)
  have url: "REJSEPLANEN_API_BASE @ py ''/'' @ py ''location'' =
      py ''https://xmlopen.rejseplanen.dk/bin/rest.exe/location''"
    by (simp add: REJSEPLANEN_API_BASE_def py_def)
  have run: "make_api_request ?up (py ''location'') ?ps [] =
      (Inl (Exception (py ''Request to Rejseplanen API timed out after 30 seconds'')),
       ?ps', [?req])"
    using k msg url
    by (simp add: make_api_request_eq try_block_def except_clauses_def REQUEST_TIMEOUT_def)
  have old: "map_of ?ps (py ''format'') \<noteq> Some (py ''json'')"
    using k by simp
  from C9_caller_params_mutated [OF run] old have "?ps' \<noteq> ?ps"
    by blast
  with run show ?thesis
    by simp
qed

text \<open>
  Claim C10. \<open>trip_search\<close> and \<open>departure_board\<close> check neither \<open>date\<close> nor \<open>time\<close>.
  With valid identifiers, whatever the two arguments are, the call raises no
  \<open>ValueError\<close> and issues its one request; a non-empty \<open>date\<close> or \<open>time\<close>, be it
  whitespace only or of any other shape, is in that request as it was given, untrimmed,
  under the key \<open>date\<close> or \<open>time\<close>, right after the identifiers; and the empty string
  is left out, so that the call equals the call with the argument absent.
\<close>

theorem C10_date_time_passthrough:
  assumes "\<not> (\<forall>c\<in>set origin_id. isspace c)" and "\<not> (\<forall>c\<in>set dest_id. isspace c)"
    and "\<not> (\<forall>c\<in>set station_id. isspace c)"
  shows "req_params (last (snd (trip_search upstream origin_id dest_id date time
         use_train use_bus use_metro use_ferry sent))) =
       [(py ''originId'', strip origin_id), (py ''destId'', strip dest_id)] @
       (case date of None \<Rightarrow> [] | Some d \<Rightarrow> if d = [] then [] else [(py ''date'', d)]) @
       (case time of None \<Rightarrow> [] | Some t \<Rightarrow> if t = [] then [] else [(py ''time'', t)]) @
       [(py ''useTog'', if use_train then py ''1'' else py ''0''),
        (py ''useBus'', if use_bus then py ''1'' else py ''0''),
        (py ''useMetro'', if use_metro then py ''1'' else py ''0''),
        (py ''useFerry'', if use_ferry then py ''1'' else py ''0''),
        (py ''format'', py ''json'')] \<and>
     req_params (last (snd (departure_board upstream station_id date time sent))) =
       [(py ''id'', strip station_id)] @
       (case date of None \<Rightarrow> [] | Some d \<Rightarrow> if d = [] then [] else [(py ''date'', d)]) @
       (case time of None \<Rightarrow> [] | Some t \<Rightarrow> if t = [] then [] else [(py ''time'', t)]) @
       [(py ''format'', py ''json'')] \<and>
     (\<forall>m. fst (trip_search upstream origin_id dest_id date time
         use_train use_bus use_metro use_ferry sent) \<noteq> Inl (ValueError m)) \<and>
     (\<forall>m. fst (departure_board upstream station_id date time sent) \<noteq> Inl (ValueError m)) \<and>
     length (snd (trip_search upstream origin_id dest_id date time
         use_train use_bus use_metro use_ferry sent)) = length sent + 1 \<and>
     length (snd (departure_board upstream station_id date time sent)) = length sent + 1 \<and>
     trip_search upstream origin_id dest_id (Some []) time use_train use_bus use_metro use_ferry
         sent =
       trip_search upstream origin_id dest_id None time use_train use_bus use_metro use_ferry
         sent \<and>
     trip_search upstream origin_id dest_id date (Some []) use_train use_bus use_metro use_ferry
         sent =
       trip_search upstream origin_id dest_id date None use_train use_bus use_metro use_ferry
         sent \<and>
     departure_board upstream station_id (Some []) time sent =
       departure_board upstream station_id None time sent \<and>
     departure_board upstream station_id date (Some []) sent =
       departure_board upstream station_id date None sent"
proof -
  note t = trip_search_valid [OF assms(1) assms(2), of upstream date time use_train use_bus
      use_metro use_ferry sent]
  note d = departure_board_valid [OF assms(3), of upstream date time sent]
  have "req_params (last (snd (trip_search upstream origin_id dest_id date time
         use_train use_bus use_metro use_ferry sent))) =
       [(py ''originId'', strip origin_id), (py ''destId'', strip dest_id)] @
       (case date of None \<Rightarrow> [] | Some d \<Rightarrow> if d = [] then [] else [(py ''date'', d)]) @
       (case time of None \<Rightarrow> [] | Some t \<Rightarrow> if t = [] then [] else [(py ''time'', t)]) @
       [(py ''useTog'', if use_train then py ''1'' else py ''0''),
        (py ''useBus'', if use_bus then py ''1'' else py ''0''),
        (py ''useMetro'', if use_metro then py ''1'' else py ''0''),
        (py ''useFerry'', if use_ferry then py ''1'' else py ''0''),
        (py ''format'', py ''json'')]"
    by (simp add: t last_request trip_params_keys split: option.splits)
  moreover have "req_params (last (snd (departure_board upstream station_id date time sent))) =
       [(py ''id'', strip station_id)] @
       (case date of None \<Rightarrow> [] | Some d \<Rightarrow> if d = [] then [] else [(py ''date'', d)]) @
       (case time of None \<Rightarrow> [] | Some t \<Rightarrow> if t = [] then [] else [(py ''time'', t)]) @
       [(py ''format'', py ''json'')]"
    by (simp add: d last_request trip_params_keys split: option.splits)
  moreover have "\<forall>m. fst (trip_search upstream origin_id dest_id date time
         use_train use_bus use_metro use_ferry sent) \<noteq> Inl (ValueError m)"
    by (simp only: t delegate_not_ValueError not_False_eq_True simp_thms)
  moreover have "\<forall>m. fst (departure_board upstream station_id date time sent) \<noteq>
      Inl (ValueError m)"
    by (simp only: d delegate_not_ValueError not_False_eq_True simp_thms)
  moreover have "length (snd (trip_search upstream origin_id dest_id date time
         use_train use_bus use_metro use_ferry sent)) = length sent + 1"
    by (simp only: t delegate_length)
  moreover have "length (snd (departure_board upstream station_id date time sent)) =
      length sent + 1"
    by (simp only: d delegate_length)
  ultimately show ?thesis
    by (simp only: trip_search_falsy_date trip_search_falsy_time departure_board_falsy_date
        departure_board_falsy_time simp_thms)
qed

text \<open>
  A date of two blanks and a time that is no time are forwarded as they are; an empty
  time is dropped and an impossible date kept.
\<close>

theorem C10_date_time_passthrough_witness:
  "req_params (last (snd (trip_search (\<lambda>r. GetReturns (Response 200 (py ''7'') None (Inr (7::nat))))
       (py ''A'') (py ''B'') (Some (py ''  '')) (Some (py ''half past nine ''))
       True True True True []))) =
     [(py ''originId'', py ''A''), (py ''destId'', py ''B''),
      (py ''date'', py ''  ''), (py ''time'', py ''half past nine ''),
      (py ''useTog'', py ''1''), (py ''useBus'', py ''1''),
      (py ''useMetro'', py ''1''), (py ''useFerry'', py ''1''),
      (py ''format'', py ''json'')] \<and>
   req_params (last (snd (departure_board (\<lambda>r. GetReturns (Response 200 (py ''7'') None (Inr (7::nat))))
       (py ''008600626'') (Some (py ''31.02.99'')) (Some []) []))) =
     [(py ''id'', py ''008600626''), (py ''date'', py ''31.02.99''),
      (py ''format'', py ''json'')]"
proof -
  let ?up = "\<lambda>r::request. GetReturns (Response 200 (py ''7'') None (Inr (7::nat)))"
  have v: "\<not> (\<forall>c\<in>set (py ''A''). isspace c)" "\<not> (\<forall>c\<in>set (py ''B''). isspace c)"
    "\<not> (\<forall>c\<in>set (py ''008600626''). isspace c)"
    by (simp_all add: py_def isspace_def)
  have st: "strip (py ''A'') = py ''A''" "strip (py ''B'') = py ''B''"
    "strip (py ''008600626'') = py ''008600626''"
    by (simp_all add: py_def strip_def isspace_def)
  have ne: "py ''  '' \<noteq> []" "py ''half past nine '' \<noteq> []" "py ''31.02.99'' \<noteq> []"
    by (simp_all add: py_def)
  note a = C10_date_time_passthrough [OF v, of ?up "Some (py ''  '')"
      "Some (py ''half past nine '')" True True True True "[]"]
  note b = C10_date_time_passthrough [OF v, of ?up "Some (py ''31.02.99'')" "Some []"
      True True True True "[]"]
  show ?thesis
    using a [THEN conjunct1] b [THEN conjunct2, THEN conjunct1] st ne
    by simp
qed

end
